theory Spec2Isabelle
  imports Main
begin

section \<open>Data model of package errors\<close>

text \<open>
  A Go \<open>string\<close> is a byte sequence: \<^typ>\<open>string\<close>. The struct \<open>Error\<close> has six attribute
  fields (the defined string types \<open>Mod\<close>, \<open>Func\<close>, \<open>Kind\<close>, \<open>Op\<close>, \<open>Obj\<close>, \<open>Code\<close>), the
  \<open>Details\<close> string and the wrapped \<open>Err\<close>, a value of the interface \<open>error\<close>. An interface
  value of type \<open>error\<close> is \<open>nil\<close> (\<open>None\<close>), holds an \<open>Error\<close> struct (the type assertion
  \<open>e.(Error)\<close> succeeds), or holds a value of some other type, of which the package only
  ever reads the message its \<open>Error()\<close> method returns.
\<close>

datatype Error =
  Error (Module: string) (Function: string) (Kind: string) (Operation: string)
        (Object: string) (Code: string) (Details: string) (Err: "error option")
and error =
  ErrorV Error
| Foreign string

text \<open>\<open>type Template Error\<close>: a defined type with the same fields and none of the methods.\<close>

datatype Template = Template (Error_of: Error)

text \<open>
  One element of the variadic \<open>args ...interface{}\<close>, by the dynamic type the type switch of
  \<open>e\<close> distinguishes: the nil interface, the six attribute types, \<open>string\<close>, a value
  implementing \<open>error\<close>, and a value of any other type \<open>'v\<close>.
\<close>

datatype 'v arg =
  ANil
| AMod string
| AFunc string
| AKind string
| AOp string
| AObj string
| ACode string
| AStr string
| AErr error
| AOther 'v

section \<open>strings.Trim\<close>

text \<open>
  \<open>strings.Trim(s, cutset)\<close> of the Go standard library, for a cutset of ASCII characters
  (the only use in this package): the trailing bytes contained in the cutset are removed,
  then the leading ones.
\<close>

definition TrimRight :: "string \<Rightarrow> string \<Rightarrow> string" where
  "TrimRight s cutset = rev (dropWhile (\<lambda>c. c \<in> set cutset) (rev s))"

definition TrimLeft :: "string \<Rightarrow> string \<Rightarrow> string" where
  "TrimLeft s cutset = dropWhile (\<lambda>c. c \<in> set cutset) s"

definition Trim :: "string \<Rightarrow> string \<Rightarrow> string" where
  "Trim s cutset = TrimLeft (TrimRight s cutset) cutset"

section \<open>Classification: the function e\<close>

text \<open>
  The body of the loop of \<open>e\<close> for one argument. \<open>sprint\<close> stands for \<open>fmt.Sprintf("%v", x)\<close>
  on a value of another type. The \<open>string\<close> case puts the separator before the text, the
  default case puts it after.
\<close>

fun e_step :: "('v \<Rightarrow> string) \<Rightarrow> Error \<Rightarrow> 'v arg \<Rightarrow> Error" where
  "e_step sprint err ANil = err"
| "e_step sprint (Error m f k op ob c d er) (AMod x) = Error x f k op ob c d er"
| "e_step sprint (Error m f k op ob c d er) (AFunc x) = Error m x k op ob c d er"
| "e_step sprint (Error m f k op ob c d er) (AKind x) = Error m f x op ob c d er"
| "e_step sprint (Error m f k op ob c d er) (AOp x) = Error m f k x ob c d er"
| "e_step sprint (Error m f k op ob c d er) (AObj x) = Error m f k op x c d er"
| "e_step sprint (Error m f k op ob c d er) (ACode x) = Error m f k op ob x d er"
| "e_step sprint (Error m f k op ob c d er) (AStr x) = Error m f k op ob c (d @ ''; '' @ x) er"
| "e_step sprint (Error m f k op ob c d er) (AErr x) = Error m f k op ob c d (Some x)"
| "e_step sprint (Error m f k op ob c d er) (AOther x) =
     Error m f k op ob c (d @ sprint x @ ''; '') er"

fun e_loop :: "('v \<Rightarrow> string) \<Rightarrow> Error \<Rightarrow> 'v arg list \<Rightarrow> Error" where
  "e_loop sprint err [] = err"
| "e_loop sprint err (a # as) = e_loop sprint (e_step sprint err a) as"

fun trim_Details :: "Error \<Rightarrow> Error" where
  "trim_Details (Error m f k op ob c d er) = Error m f k op ob c (Trim d ''; '') er"

definition e :: "('v \<Rightarrow> string) \<Rightarrow> Error \<Rightarrow> 'v arg list \<Rightarrow> Error" where
  "e sprint err args = trim_Details (e_loop sprint err args)"

text \<open>The zero value \<open>Error{}\<close>.\<close>

definition Error_zero :: Error where
  "Error_zero = Error [] [] [] [] [] [] [] None"

definition E :: "('v \<Rightarrow> string) \<Rightarrow> 'v arg list \<Rightarrow> Error" where
  "E sprint args = e sprint Error_zero args"

definition T :: "('v \<Rightarrow> string) \<Rightarrow> 'v arg list \<Rightarrow> Template" where
  "T sprint args = Template (e sprint Error_zero args)"

definition Template_T :: "('v \<Rightarrow> string) \<Rightarrow> Template \<Rightarrow> 'v arg list \<Rightarrow> Template" where
  "Template_T sprint tpl args = Template (e sprint (Error_of tpl) args)"

definition Template_E :: "('v \<Rightarrow> string) \<Rightarrow> Template \<Rightarrow> 'v arg list \<Rightarrow> Error" where
  "Template_E sprint tpl args = e sprint (Error_of tpl) args"

section \<open>Rendering: the method Error.Error\<close>

text \<open>
  The text \<open>s\<close> assembled for one node \<open>err2\<close> of the chain. \<open>err\<close> is the receiver, the
  outermost record: the source tests \<open>err.Kind\<close> and \<open>err.Code\<close> where every other line
  reads \<open>err2\<close>.
\<close>

definition block :: "Error \<Rightarrow> Error \<Rightarrow> string" where
  "block err err2 =
    (let s = Module err2;
         s = (if Function err2 \<noteq> [] then s @ ''/'' @ Function err2 else s);
         s = (if Object err2 \<noteq> [] then s @ '' ['' @ Object err2 @ '']'' else s);
         s = s @ ''\<newline>   '';
         s = (if Operation err2 \<noteq> [] then s @ Operation err2 @ '': '' else s);
         s = (if Kind err \<noteq> []
              then (let s = s @ Kind err2;
                        s = (if Code err = [] then s @ '':'' else s)
                    in s @ '' '')
              else s);
         s = (if Code err2 \<noteq> [] then s @ ''('' @ Code err2 @ ''): '' else s);
         s = (if Details err2 \<noteq> [] then s @ Details err2 else s)
     in Trim s '' /\<newline>:;'')"

text \<open>The start of every iteration: a newline unless \<open>ret\<close> is empty, then \<open>" - "\<close>.\<close>

definition prefix_ret :: "string \<Rightarrow> string" where
  "prefix_ret ret = (if ret \<noteq> [] then ret @ ''\<newline>'' else ret) @ '' - ''"

text \<open>
  The loop \<open>for e != nil\<close>, with \<open>ret\<close> as accumulator; a value that is not an \<open>Error\<close>
  contributes its own message and ends the loop.
\<close>

fun Error_loop :: "Error \<Rightarrow> error option \<Rightarrow> string \<Rightarrow> string" where
  "Error_loop err None ret = ret"
| "Error_loop err (Some (Foreign msg)) ret = prefix_ret ret @ msg"
| "Error_loop err (Some (ErrorV (Error m f k op ob c d er))) ret =
     Error_loop err er (prefix_ret ret @ block err (Error m f k op ob c d er))"

text \<open>The deferred function trims the result on every return path.\<close>

definition Error_Error :: "Error \<Rightarrow> string" where
  "Error_Error err = Trim (Error_loop err (Some (ErrorV err)) []) ''\<newline>- ;/''"

definition Unwrap :: "Error \<Rightarrow> error option" where
  "Unwrap err = Err err"

text \<open>
  Applying \<open>Unwrap\<close> \<open>n\<close> times, each time to the \<open>Error\<close> held by the previous result
  (\<open>u.(Error).Unwrap()\<close>); \<open>None\<close> when a result is \<open>nil\<close> or not an \<open>Error\<close>, where the
  assertion panics.
\<close>

fun Unwrap_times :: "nat \<Rightarrow> Error \<Rightarrow> Error option" where
  "Unwrap_times 0 err = Some err"
| "Unwrap_times (Suc n) err =
     (case Unwrap err of Some (ErrorV err') \<Rightarrow> Unwrap_times n err' | _ \<Rightarrow> None)"

section \<open>Notions used in the statements\<close>

text \<open>The attributes of one category in an argument list, in order of appearance.\<close>

fun Mods :: "'v arg list \<Rightarrow> string list" where
  "Mods [] = []"
| "Mods (AMod x # as) = x # Mods as"
| "Mods (_ # as) = Mods as"

fun Funcs :: "'v arg list \<Rightarrow> string list" where
  "Funcs [] = []"
| "Funcs (AFunc x # as) = x # Funcs as"
| "Funcs (_ # as) = Funcs as"

fun Kinds :: "'v arg list \<Rightarrow> string list" where
  "Kinds [] = []"
| "Kinds (AKind x # as) = x # Kinds as"
| "Kinds (_ # as) = Kinds as"

fun Ops :: "'v arg list \<Rightarrow> string list" where
  "Ops [] = []"
| "Ops (AOp x # as) = x # Ops as"
| "Ops (_ # as) = Ops as"

fun Objs :: "'v arg list \<Rightarrow> string list" where
  "Objs [] = []"
| "Objs (AObj x # as) = x # Objs as"
| "Objs (_ # as) = Objs as"

fun Codes :: "'v arg list \<Rightarrow> string list" where
  "Codes [] = []"
| "Codes (ACode x # as) = x # Codes as"
| "Codes (_ # as) = Codes as"

fun Causes :: "'v arg list \<Rightarrow> error list" where
  "Causes [] = []"
| "Causes (AErr x # as) = x # Causes as"
| "Causes (_ # as) = Causes as"

text \<open>An argument that goes to \<open>Details\<close>: a \<open>string\<close> or a value of another type.\<close>

fun is_detail :: "'v arg \<Rightarrow> bool" where
  "is_detail (AStr x) = True"
| "is_detail (AOther x) = True"
| "is_detail _ = False"

text \<open>The text the loop of \<open>e\<close> appends to \<open>Details\<close> for an argument list.\<close>

fun appended :: "('v \<Rightarrow> string) \<Rightarrow> 'v arg list \<Rightarrow> string" where
  "appended sprint [] = []"
| "appended sprint (AStr x # as) = ''; '' @ x @ appended sprint as"
| "appended sprint (AOther x # as) = sprint x @ ''; '' @ appended sprint as"
| "appended sprint (_ # as) = appended sprint as"

text \<open>
  What the specification says of \<open>Details\<close>: one fragment per detail argument, text verbatim
  and any other value in its default rendering, after the inherited \<open>Details\<close> when that is
  not empty, joined with \<open>"; "\<close> (\<open>Join\<close> is \<open>strings.Join\<close>) and trimmed.
\<close>

fun Join :: "string list \<Rightarrow> string \<Rightarrow> string" where
  "Join [] sep = []"
| "Join [d] sep = d"
| "Join (d # ds) sep = d @ sep @ Join ds sep"

fun fragments :: "('v \<Rightarrow> string) \<Rightarrow> 'v arg list \<Rightarrow> string list" where
  "fragments sprint [] = []"
| "fragments sprint (AStr x # as) = x # fragments sprint as"
| "fragments sprint (AOther x # as) = sprint x # fragments sprint as"
| "fragments sprint (_ # as) = fragments sprint as"

definition spec_Details :: "('v \<Rightarrow> string) \<Rightarrow> Error \<Rightarrow> 'v arg list \<Rightarrow> string" where
  "spec_Details sprint err args =
     Trim (Join ((if Details err \<noteq> [] then [Details err] else []) @ fragments sprint args) ''; '')
          ''; ''"

text \<open>
  The trim in the specification's words (4.1, step 4: "trim any leading/trailing
  occurrences of \<open>"; "\<close> and surrounding whitespace"): at either end, an occurrence of the
  two-character text \<open>"; "\<close> and any whitespace character are removed, as long as there
  is one. \<open>drop_units a b\<close> does so at the front, for the unit \<open>a b\<close>; at the end the text
  is read backwards.
\<close>

definition whitespace :: "char \<Rightarrow> bool" where
  "whitespace c = (c \<in> set [CHR '' '', CHR 0x09, CHR 0x0A, CHR 0x0B, CHR 0x0C, CHR 0x0D])"

fun drop_units :: "char \<Rightarrow> char \<Rightarrow> string \<Rightarrow> string" where
  "drop_units a b (c # d # s) =
     (if c = a \<and> d = b then drop_units a b s
      else if whitespace c then drop_units a b (d # s)
      else c # d # s)"
| "drop_units a b [c] = (if whitespace c then [] else [c])"
| "drop_units a b [] = []"

definition spec_trim :: "string \<Rightarrow> string" where
  "spec_trim s = rev (drop_units CHR '' '' CHR '';'' (rev (drop_units CHR '';'' CHR '' '' s)))"

text \<open>A text that begins, or ends, with one of the characters of \<open>cs\<close>.\<close>

definition begins_in :: "string \<Rightarrow> string \<Rightarrow> bool" where
  "begins_in s cs = (s \<noteq> [] \<and> hd s \<in> set cs)"

definition ends_in :: "string \<Rightarrow> string \<Rightarrow> bool" where
  "ends_in s cs = (s \<noteq> [] \<and> last s \<in> set cs)"

text \<open>
  A chain of nested records, built from the innermost outwards as \<open>TestError_Unwrap\<close> does:
  every further record is classified from a starting record and an argument list in
  which the previous record is the last cause (\<open>as\<close> before it, \<open>bs\<close> after it).
\<close>

fun nest :: "('v \<Rightarrow> string) \<Rightarrow> Error \<Rightarrow> (Error \<times> 'v arg list \<times> 'v arg list) list \<Rightarrow> Error" where
  "nest sprint inner [] = inner"
| "nest sprint inner ((start, as, bs) # ws) =
     nest sprint (e sprint start (as @ AErr (ErrorV inner) # bs)) ws"

section \<open>Calls by value, on a store of variables\<close>

text \<open>
  \<open>Template.T\<close>, \<open>Template.E\<close> and \<open>e\<close> take the record by value: the parameter \<open>err\<close> of \<open>e\<close>
  is a cell of its own, initialised with a copy of the argument, and the assignments of
  the loop go to that cell. The store maps variables to the records they hold.
\<close>

type_synonym var = nat

type_synonym store = "var \<Rightarrow> Error option"

fun e_loop_at :: "('v \<Rightarrow> string) \<Rightarrow> var \<Rightarrow> 'v arg list \<Rightarrow> store \<Rightarrow> store" where
  "e_loop_at sprint l [] s = s"
| "e_loop_at sprint l (a # as) s =
     e_loop_at sprint l as
       (case s l of None \<Rightarrow> s | Some err \<Rightarrow> s(l \<mapsto> e_step sprint err a))"

text \<open>
  The call \<open>e(v, args...)\<close> with the parameter in cell \<open>l\<close>: the returned record, and the
  store after the cell is released.
\<close>

definition call_e :: "('v \<Rightarrow> string) \<Rightarrow> var \<Rightarrow> Error \<Rightarrow> 'v arg list \<Rightarrow> store \<Rightarrow> Error option \<times> store" where
  "call_e sprint l v args s =
    (let s1 = s(l \<mapsto> v);
         s2 = e_loop_at sprint l args s1;
         s3 = (case s2 l of None \<Rightarrow> s2 | Some err \<Rightarrow> s2(l \<mapsto> trim_Details err))
     in (s3 l, s3(l := None)))"

text \<open>
  The statement \<open>dst := src.T(args...)\<close> (or \<open>src.E(args...)\<close>: the two differ in the
  static type of the result only), the callee's parameter in cell \<open>l\<close>. A program that
  compiles reads declared variables only; where \<open>src\<close> holds nothing the statement is
  modelled as doing nothing.
\<close>

definition derive :: "('v \<Rightarrow> string) \<Rightarrow> var \<Rightarrow> var \<Rightarrow> 'v arg list \<Rightarrow> var \<Rightarrow> store \<Rightarrow> store" where
  "derive sprint dst src args l s =
    (case s src of
       None \<Rightarrow> s
     | Some tpl \<Rightarrow>
        (case call_e sprint l tpl args s of
           (None, s') \<Rightarrow> s'
         | (Some r, s') \<Rightarrow> s'(dst \<mapsto> r)))"

section \<open>Example values\<close>

text \<open>
  In the examples a value of another type is given by its default rendering: \<open>AOther ''1''\<close>
  is the \<open>int\<close> 1, and \<open>rendered\<close> is \<open>fmt.Sprintf("%v", x)\<close> on such values.
\<close>

definition rendered :: "string \<Rightarrow> string" where
  "rendered v = v"

text \<open>An argument list with two values of every singular category and two causes.\<close>

definition two_of_each :: "string arg list" where
  "two_of_each =
     [AMod ''m1'', AStr ''d'', AMod ''m2'', AFunc ''f1'', AFunc ''f2'', AKind ''k1'', AKind ''k2'',
      AOp ''o1'', ANil, AOp ''o2'', AObj ''b1'', AObj ''b2'', ACode ''c1'', ACode ''c2'',
      AErr (Foreign ''x''), AOther ''v'', AErr (Foreign ''y'')]"

text \<open>A template with every field set.\<close>

definition full_template :: Template where
  "full_template = Template (Error ''m'' ''f'' ''k'' ''o'' ''b'' ''c'' ''d'' (Some (Foreign ''x'')))"

text \<open>
  The layers of a chain of five records around \<open>Error{}\<close>, in the manner of
  \<open>TestError_Unwrap\<close> (\<open>errs[i] = errors.E(i, errs[i-1])\<close>), one of them with a further
  cause before the wrapped record and a kind after it.
\<close>

definition layers :: "(Error \<times> string arg list \<times> string arg list) list" where
  "layers = [(Error_zero, [AOther ''1''], []), (Error_zero, [AOther ''2''], []),
             (Error_zero, [AErr (Foreign ''other''), AOther ''3''], [AKind ''k'']),
             (Error_zero, [AOther ''4''], [])]"

text \<open>
  The variables of \<open>ExampleTemplate_T\<close>: \<open>etpl1\<close> is variable 0 and holds
  \<open>errors.T(errors.Func("Template.T example"))\<close>; \<open>etpl2\<close> and \<open>err1\<close> are variables 1 and 2.
\<close>

definition example_store :: store where
  "example_store = (\<lambda>_. None)(0 \<mapsto> Error_of (T rendered [AFunc ''Template.T example'']))"

section \<open>Properties of strings.Trim\<close>

lemma TrimRight_prefix:
  assumes "set p \<subseteq> set cs"
  shows "TrimRight (p @ s) cs = (if set s \<subseteq> set cs then [] else p @ TrimRight s cs)"
  using assms by (auto simp: TrimRight_def dropWhile_append)

lemma Trim_prefix:
  assumes "set p \<subseteq> set cs"
  shows "Trim (p @ s) cs = Trim s cs"
proof (cases "set s \<subseteq> set cs")
  case True
  then have "TrimRight s cs = []" by (auto simp: TrimRight_def)
  with True assms show ?thesis by (simp add: Trim_def TrimRight_prefix TrimLeft_def)
next
  case False
  with assms show ?thesis
    by (auto simp: Trim_def TrimRight_prefix TrimLeft_def dropWhile_append)
qed

lemma Trim_suffix:
  assumes "set t \<subseteq> set cs"
  shows "Trim (s @ t) cs = Trim s cs"
  using assms by (auto simp: Trim_def TrimRight_def dropWhile_append)

lemma Trim_not_begins: "\<not> begins_in (Trim s cs) cs"
  using hd_dropWhile [of "\<lambda>c. c \<in> set cs" "TrimRight s cs"]
  by (auto simp: begins_in_def Trim_def TrimLeft_def)

lemma TrimRight_not_ends: "\<not> ends_in (TrimRight s cs) cs"
  using hd_dropWhile [of "\<lambda>c. c \<in> set cs" "rev s"]
  by (auto simp: ends_in_def TrimRight_def last_rev)

lemma last_dropWhile: "dropWhile P xs \<noteq> [] \<Longrightarrow> last (dropWhile P xs) = last xs"
  by (induction xs) (auto split: if_splits)

lemma Trim_not_ends: "\<not> ends_in (Trim s cs) cs"
proof
  assume a: "ends_in (Trim s cs) cs"
  then have ne: "dropWhile (\<lambda>c. c \<in> set cs) (TrimRight s cs) \<noteq> []"
    by (simp add: ends_in_def Trim_def TrimLeft_def)
  from a have "last (TrimRight s cs) \<in> set cs"
    using last_dropWhile [OF ne] by (simp add: ends_in_def Trim_def TrimLeft_def)
  moreover from ne have "TrimRight s cs \<noteq> []" by auto
  ultimately have "ends_in (TrimRight s cs) cs" by (simp add: ends_in_def)
  with TrimRight_not_ends show False by blast
qed

lemma in_set_dropWhile: "x \<in> set xs \<Longrightarrow> \<not> P x \<Longrightarrow> x \<in> set (dropWhile P xs)"
  by (induction xs) auto

lemma Trim_nonempty:
  assumes "c \<in> set s" and "c \<notin> set cs"
  shows "Trim s cs \<noteq> []"
proof -
  from assms have "c \<in> set (dropWhile (\<lambda>c. c \<in> set cs) (rev s))"
    by (intro in_set_dropWhile) simp_all
  then have "c \<in> set (TrimRight s cs)"
    by (simp add: TrimRight_def)
  with assms(2) have "c \<in> set (Trim s cs)"
    unfolding Trim_def TrimLeft_def by (intro in_set_dropWhile)
  then show ?thesis by auto
qed

lemma Trim_decompose:
  "\<exists>p q. s = p @ Trim s cs @ q \<and> set p \<subseteq> set cs \<and> set q \<subseteq> set cs"
proof -
  let ?P = "\<lambda>c. c \<in> set cs"
  let ?q = "rev (takeWhile ?P (rev s))"
  let ?p = "takeWhile ?P (TrimRight s cs)"
  have "rev (dropWhile ?P (rev s)) @ ?q = rev (takeWhile ?P (rev s) @ dropWhile ?P (rev s))"
    by (simp only: rev_append)
  also have "\<dots> = rev (rev s)" by (simp only: takeWhile_dropWhile_id)
  also have "\<dots> = s" by simp
  finally have 1: "s = TrimRight s cs @ ?q" by (simp only: TrimRight_def)
  have 2: "TrimRight s cs = ?p @ Trim s cs" by (simp add: Trim_def TrimLeft_def)
  have "s = ?p @ Trim s cs @ ?q" using 1 2 by (metis append.assoc)
  moreover have "set ?p \<subseteq> set cs" by (auto dest: set_takeWhileD)
  moreover have "set ?q \<subseteq> set cs" by (auto dest: set_takeWhileD)
  ultimately show ?thesis by blast
qed

lemma dropWhile_unchanged: "xs = [] \<or> \<not> P (hd xs) \<Longrightarrow> dropWhile P xs = xs"
  by (cases xs) auto

lemma Trim_id:
  assumes "\<not> begins_in r cs" and "\<not> ends_in r cs"
  shows "Trim r cs = r"
proof -
  from assms(2) have "rev r = [] \<or> \<not> hd (rev r) \<in> set cs"
    by (auto simp: ends_in_def hd_rev)
  then have "dropWhile (\<lambda>c. c \<in> set cs) (rev r) = rev r" by (rule dropWhile_unchanged)
  then have "TrimRight r cs = r" by (simp add: TrimRight_def)
  moreover from assms(1) have "dropWhile (\<lambda>c. c \<in> set cs) r = r"
    by (intro dropWhile_unchanged) (auto simp: begins_in_def)
  ultimately show ?thesis by (simp add: Trim_def TrimLeft_def)
qed

lemma stripped_is_Trim:
  assumes "s = p @ r @ q" and "set p \<subseteq> set cs" and "set q \<subseteq> set cs"
    and "\<not> begins_in r cs" and "\<not> ends_in r cs"
  shows "r = Trim s cs"
proof -
  have "Trim s cs = Trim ((p @ r) @ q) cs" by (simp add: assms(1))
  also have "\<dots> = Trim (p @ r) cs" using assms(3) by (rule Trim_suffix)
  also have "\<dots> = Trim r cs" using assms(2) by (rule Trim_prefix)
  also have "\<dots> = r" using assms(4,5) by (rule Trim_id)
  finally show ?thesis by simp
qed

section \<open>Properties of the classification\<close>

lemma Details_trim_Details: "Details (trim_Details r) = Trim (Details r) ''; ''"
  by (cases r) simp

lemma e_loop_filter: "e_loop sprint err (filter (\<lambda>a. a \<noteq> ANil) args) = e_loop sprint err args"
  by (induction args arbitrary: err) simp_all

lemma Details_e_loop_AStr:
  "Details (e_loop sprint err (map AStr ds)) = Details err @ concat (map ((@) ''; '') ds)"
proof (induction ds arbitrary: err)
  case Nil
  show ?case by simp
next
  case (Cons d ds)
  show ?case by (cases err) (simp add: Cons.IH)
qed

lemma Join_Cons: "Join (d # ds) sep = d @ concat (map ((@) sep) ds)"
  by (induction ds arbitrary: d) simp_all

lemma Details_plain_text_Trim:
  "Details (E sprint (map AStr ds)) = Trim (Join ds ''; '') ''; ''"
proof (cases ds)
  case Nil
  then show ?thesis
    by (simp add: E_def e_def Error_zero_def Trim_def TrimLeft_def TrimRight_def)
next
  case (Cons d ds')
  have "Details (E sprint (map AStr ds)) = Trim (''; '' @ Join ds ''; '') ''; ''"
    unfolding Cons Join_Cons
    by (simp add: E_def e_def Details_trim_Details Details_e_loop_AStr Error_zero_def)
  also have "\<dots> = Trim (Join ds ''; '') ''; ''"
    by (rule Trim_prefix) simp
  finally show ?thesis .
qed

lemma fields_trim_Details:
  "Module (trim_Details r) = Module r" "Function (trim_Details r) = Function r"
  "Kind (trim_Details r) = Kind r" "Operation (trim_Details r) = Operation r"
  "Object (trim_Details r) = Object r" "Code (trim_Details r) = Code r"
  "Err (trim_Details r) = Err r"
  by (cases r; simp)+

lemma Module_e_loop: "Module (e_loop sprint err args) = last (Module err # Mods args)"
proof (induction args arbitrary: err)
  case Nil
  show ?case by simp
next
  case (Cons a as)
  show ?case by (cases err; cases a) (simp_all add: Cons.IH)
qed

lemma Function_e_loop: "Function (e_loop sprint err args) = last (Function err # Funcs args)"
proof (induction args arbitrary: err)
  case Nil
  show ?case by simp
next
  case (Cons a as)
  show ?case by (cases err; cases a) (simp_all add: Cons.IH)
qed

lemma Kind_e_loop: "Kind (e_loop sprint err args) = last (Kind err # Kinds args)"
proof (induction args arbitrary: err)
  case Nil
  show ?case by simp
next
  case (Cons a as)
  show ?case by (cases err; cases a) (simp_all add: Cons.IH)
qed

lemma Operation_e_loop: "Operation (e_loop sprint err args) = last (Operation err # Ops args)"
proof (induction args arbitrary: err)
  case Nil
  show ?case by simp
next
  case (Cons a as)
  show ?case by (cases err; cases a) (simp_all add: Cons.IH)
qed

lemma Object_e_loop: "Object (e_loop sprint err args) = last (Object err # Objs args)"
proof (induction args arbitrary: err)
  case Nil
  show ?case by simp
next
  case (Cons a as)
  show ?case by (cases err; cases a) (simp_all add: Cons.IH)
qed

lemma Code_e_loop: "Code (e_loop sprint err args) = last (Code err # Codes args)"
proof (induction args arbitrary: err)
  case Nil
  show ?case by simp
next
  case (Cons a as)
  show ?case by (cases err; cases a) (simp_all add: Cons.IH)
qed

lemma Err_e_loop: "Err (e_loop sprint err args) = last (Err err # map Some (Causes args))"
proof (induction args arbitrary: err)
  case Nil
  show ?case by simp
next
  case (Cons a as)
  show ?case by (cases err; cases a) (simp_all add: Cons.IH)
qed

lemmas fields_e =
  Module_e_loop Function_e_loop Kind_e_loop Operation_e_loop Object_e_loop Code_e_loop
  Err_e_loop fields_trim_Details

lemma Details_e_loop: "Details (e_loop sprint err args) = Details err @ appended sprint args"
proof (induction args arbitrary: err)
  case Nil
  show ?case by simp
next
  case (Cons a as)
  show ?case by (cases err; cases a) (simp_all add: Cons.IH)
qed

lemma Details_e: "Details (e sprint err args) = Trim (Details err @ appended sprint args) ''; ''"
  by (simp add: e_def Details_trim_Details Details_e_loop)

lemma appended_append: "appended sprint (xs @ ys) = appended sprint xs @ appended sprint ys"
  by (induction sprint xs rule: appended.induct) simp_all

lemma appended_no_detail: "\<forall>a\<in>set rest. \<not> is_detail a \<Longrightarrow> appended sprint rest = []"
  by (induction sprint rest rule: appended.induct) simp_all

lemma Details_last_fragment:
  assumes "set t \<subseteq> set ''; ''" and "\<forall>a\<in>set rest. \<not> is_detail a"
  shows "Details (e sprint err (args @ AStr (d @ t) # rest))
         = Details (e sprint err (args @ AStr d # rest))"
proof -
  have "Details (e sprint err (args @ AStr (d @ t) # rest))
        = Trim ((Details err @ appended sprint args @ ''; '' @ d) @ t) ''; ''"
    using assms(2) by (simp add: Details_e appended_append appended_no_detail)
  also have "\<dots> = Trim (Details err @ appended sprint args @ ''; '' @ d) ''; ''"
    using assms(1) by (rule Trim_suffix)
  also have "\<dots> = Details (e sprint err (args @ AStr d # rest))"
    using assms(2) by (simp add: Details_e appended_append appended_no_detail)
  finally show ?thesis .
qed

lemma Causes_append: "Causes (xs @ ys) = Causes xs @ Causes ys"
  by (induction xs rule: Causes.induct) simp_all

lemma nest_append: "nest sprint inner (ws @ ws') = nest sprint (nest sprint inner ws) ws'"
  by (induction sprint inner ws rule: nest.induct) simp_all

lemma Unwrap_layer:
  "Causes bs = [] \<Longrightarrow> Unwrap (e sprint start (as @ AErr (ErrorV inner) # bs)) = Some (ErrorV inner)"
  by (simp add: Unwrap_def e_def fields_e Causes_append)

lemma Unwrap_times_nest:
  "\<forall>(start, as, bs)\<in>set ws. Causes bs = [] \<Longrightarrow>
   Unwrap_times (length ws) (nest sprint inner ws) = Some inner"
proof (induction ws rule: rev_induct)
  case Nil
  show ?case by simp
next
  case (snoc w ws)
  obtain start as bs where w: "w = (start, as, bs)" by (cases w)
  from snoc.prems have bs: "Causes bs = []" and rest: "\<forall>(start, as, bs)\<in>set ws. Causes bs = []"
    by (simp_all add: w)
  show ?case
    unfolding w by (simp add: nest_append Unwrap_layer [OF bs] snoc.IH [OF rest])
qed

lemma e_loop_at_cell:
  "s l = Some v \<Longrightarrow> e_loop_at sprint l args s = s(l \<mapsto> e_loop sprint v args)"
  by (induction args arbitrary: s v) (simp_all add: fun_upd_idem)

lemma call_e_value:
  "call_e sprint l v args s = (Some (e sprint v args), s(l := None))"
  by (simp add: call_e_def e_loop_at_cell e_def)

lemma derive_value:
  assumes "s src = Some tpl" and "s l = None"
  shows "derive sprint dst src args l s = s(dst \<mapsto> e sprint tpl args)"
proof -
  from assms(2) have "s(l := None) = s" by (simp add: fun_upd_idem)
  with assms(1) show ?thesis by (simp add: derive_def call_e_value)
qed

section \<open>The scenario of ExampleE\<close>

text \<open>
  C2. \<open>E("file does not exist")\<close> renders to that text; \<open>E("can't read config", err1)\<close>
  renders to the two lines \<open>can't read config\<close> and \<open> - file does not exist\<close>; wrapping that
  with module \<open>example\<close>, function \<open>startup\<close>, operation \<open>configure\<close> and kind
  \<open>configure failed\<close> renders to the header \<open>example/startup\<close>, the line
  \<open>   configure: configure failed\<close> and the two lines of the wrapped errors.
\<close>

theorem ExampleE_renders:
  "Error_Error (E sprint [AStr ''file does not exist'']) = ''file does not exist''
   \<and> Error_Error (E sprint [AStr ''can't read config'',
                            AErr (ErrorV (E sprint [AStr ''file does not exist'']))])
     = ''can't read config\<newline> - file does not exist''
   \<and> Error_Error (E sprint [AMod ''example'', AFunc ''startup'', AOp ''configure'',
                            AKind ''configure failed'',
                            AErr (ErrorV (E sprint [AStr ''can't read config'',
                              AErr (ErrorV (E sprint [AStr ''file does not exist'']))]))])
     = ''example/startup\<newline>   configure: configure failed\<newline> - can't read config\<newline> - file does not exist''"
  by (simp add: E_def e_def Error_zero_def Error_Error_def block_def prefix_ret_def
        Trim_def TrimLeft_def TrimRight_def)

section \<open>Absent arguments\<close>

text \<open>
  C5. Classification of an argument list with nil values interspersed gives the record
  it gives for the list with the nil values removed, from every starting record (so for
  \<open>E\<close>, \<open>T\<close>, \<open>Template.T\<close> and \<open>Template.E\<close>): a nil argument adds no detail and clears no field.
\<close>

theorem nil_arguments_ignored:
  "e sprint err args = e sprint err (filter (\<lambda>a. a \<noteq> ANil) args)
   \<and> E sprint args = E sprint (filter (\<lambda>a. a \<noteq> ANil) args)
   \<and> T sprint args = T sprint (filter (\<lambda>a. a \<noteq> ANil) args)
   \<and> Template_T sprint tpl args = Template_T sprint tpl (filter (\<lambda>a. a \<noteq> ANil) args)
   \<and> Template_E sprint tpl args = Template_E sprint tpl (filter (\<lambda>a. a \<noteq> ANil) args)"
  by (simp add: e_def E_def T_def Template_T_def Template_E_def e_loop_filter)

section \<open>Plain-text details\<close>

text \<open>
  C6, as claimed: for plain-text details \<open>d1, ..., dn\<close> and no other argument,
  classification from the all-empty record gives \<open>Details = trim (d1 + "; " + ... + dn)\<close>,
  the trim being the specification's: occurrences of \<open>"; "\<close> and whitespace at the ends.
  This fails for \<open>E("a;")\<close>, where the code removes the lone \<open>;\<close>, and for a detail that
  ends with a tab, which the code keeps.
\<close>

theorem plain_text_trim_differs:
  "Details (E rendered [AStr ''a;'']) = ''a''
   \<and> spec_trim (Join [''a;''] ''; '') = ''a;''
   \<and> Details (E rendered [AStr [CHR ''a'', CHR 0x09]]) = [CHR ''a'', CHR 0x09]
   \<and> spec_trim (Join [[CHR ''a'', CHR 0x09]] ''; '') = ''a''"
  by (simp add: E_def e_def Error_zero_def Trim_def TrimLeft_def TrimRight_def
        spec_trim_def whitespace_def)

text \<open>
  C6, amended. For plain-text details \<open>d1, ..., dn\<close> and no other argument, classification
  from the all-empty record gives as \<open>Details\<close> the text \<open>d1 + "; " + ... + "; " + dn\<close>
  without its leading and trailing \<open>;\<close> and space characters: the joined text is
  \<open>Details\<close> between a prefix and a suffix made of \<open>;\<close> and spaces only, and \<open>Details\<close>
  neither begins nor ends with \<open>;\<close> or a space (by \<open>stripped_is_Trim\<close> there is one such
  text). No other character is removed, and a \<open>;\<close> is removed also where no space
  follows it. This is \<open>strings.Trim\<close> of the joined text with the cutset \<open>"; "\<close>.
\<close>

theorem plain_text_details:
  "(\<exists>p q. Join ds ''; '' = p @ Details (E sprint (map AStr ds)) @ q
           \<and> set p \<subseteq> set ''; '' \<and> set q \<subseteq> set ''; '')
   \<and> \<not> begins_in (Details (E sprint (map AStr ds))) ''; ''
   \<and> \<not> ends_in (Details (E sprint (map AStr ds))) ''; ''
   \<and> Details (E sprint (map AStr ds)) = Trim (Join ds ''; '') ''; ''"
  unfolding Details_plain_text_Trim
  using Trim_decompose [of "Join ds ''; ''" "''; ''"] Trim_not_begins Trim_not_ends
  by blast

section \<open>The override law\<close>

text \<open>
  C4. When an argument list holds values of a singular category (Module, Function, Kind,
  Operation, Object or Code; two or more of them in particular), the field of the
  resulting record is the last of them in the list, whatever the starting record; and
  when causes are passed, the Cause field holds the last one only.
\<close>

theorem last_attribute_wins:
  "(Mods args \<noteq> [] \<longrightarrow> Module (e sprint err args) = last (Mods args))
   \<and> (Funcs args \<noteq> [] \<longrightarrow> Function (e sprint err args) = last (Funcs args))
   \<and> (Kinds args \<noteq> [] \<longrightarrow> Kind (e sprint err args) = last (Kinds args))
   \<and> (Ops args \<noteq> [] \<longrightarrow> Operation (e sprint err args) = last (Ops args))
   \<and> (Objs args \<noteq> [] \<longrightarrow> Object (e sprint err args) = last (Objs args))
   \<and> (Codes args \<noteq> [] \<longrightarrow> Code (e sprint err args) = last (Codes args))
   \<and> (Causes args \<noteq> [] \<longrightarrow> Err (e sprint err args) = Some (last (Causes args)))"
  by (simp add: e_def fields_e last_map)

theorem last_attribute_wins_witness:
  "Mods two_of_each \<noteq> [] \<and> Funcs two_of_each \<noteq> [] \<and> Kinds two_of_each \<noteq> []
   \<and> Ops two_of_each \<noteq> [] \<and> Objs two_of_each \<noteq> [] \<and> Codes two_of_each \<noteq> []
   \<and> Causes two_of_each \<noteq> []
   \<and> Module (e rendered Error_zero two_of_each) = ''m2''
   \<and> Function (e rendered Error_zero two_of_each) = ''f2''
   \<and> Kind (e rendered Error_zero two_of_each) = ''k2''
   \<and> Operation (e rendered Error_zero two_of_each) = ''o2''
   \<and> Object (e rendered Error_zero two_of_each) = ''b2''
   \<and> Code (e rendered Error_zero two_of_each) = ''c2''
   \<and> Err (e rendered Error_zero two_of_each) = Some (Foreign ''y'')"
  using last_attribute_wins [of two_of_each rendered Error_zero]
  by (simp add: two_of_each_def)

section \<open>Details are trimmed\<close>

text \<open>
  C10. After every classification (\<open>e\<close> from any starting record, hence \<open>E\<close>, \<open>T\<close>,
  \<open>Template.T\<close> and \<open>Template.E\<close> over any argument list) the \<open>Details\<close> of the result
  neither begins nor ends with \<open>;\<close> or a space. In particular trailing \<open>;\<close> and spaces
  of a text detail are stripped when no detail follows it: the result is the one for
  the detail without them.
\<close>

theorem Details_trimmed:
  "\<not> begins_in (Details (e sprint err args)) ''; ''
   \<and> \<not> ends_in (Details (e sprint err args)) ''; ''
   \<and> \<not> begins_in (Details (E sprint args)) ''; ''
   \<and> \<not> ends_in (Details (E sprint args)) ''; ''
   \<and> \<not> begins_in (Details (Error_of (T sprint args))) ''; ''
   \<and> \<not> ends_in (Details (Error_of (T sprint args))) ''; ''
   \<and> \<not> begins_in (Details (Error_of (Template_T sprint tpl args))) ''; ''
   \<and> \<not> ends_in (Details (Error_of (Template_T sprint tpl args))) ''; ''
   \<and> \<not> begins_in (Details (Template_E sprint tpl args)) ''; ''
   \<and> \<not> ends_in (Details (Template_E sprint tpl args)) ''; ''
   \<and> (set t \<subseteq> set ''; '' \<and> (\<forall>a\<in>set rest. \<not> is_detail a) \<longrightarrow>
        Details (e sprint err (args @ AStr (d @ t) # rest))
        = Details (e sprint err (args @ AStr d # rest)))"
  using Details_last_fragment [of t rest sprint err args d]
  by (simp add: E_def T_def Template_T_def Template_E_def Details_e Trim_not_begins Trim_not_ends
           del: set_simps)

theorem Details_trimmed_witness:
  "set ''; ; '' \<subseteq> set ''; '' \<and> filter is_detail [AKind ''k'', ANil :: string arg] = []
   \<and> Details (e rendered Error_zero ([AOther ''1''] @ AStr (''a'' @ ''; ; '') # [AKind ''k'', ANil]))
     = ''1; ; a''
   \<and> Details (e rendered Error_zero ([AOther ''1''] @ AStr ''a'' # [AKind ''k'', ANil])) = ''1; ; a''
   \<and> \<not> begins_in ''1; ; a'' ''; '' \<and> \<not> ends_in ''1; ; a'' ''; ''"
  using Details_trimmed [where sprint = rendered and err = Error_zero and args = "[AOther ''1'']"
          and tpl = "Template Error_zero" and t = "''; ; ''" and rest = "[AKind ''k'', ANil]"
          and d = "''a''"]
  by (simp add: e_def Error_zero_def rendered_def Trim_def TrimLeft_def TrimRight_def
        begins_in_def ends_in_def)

section \<open>The separator between details\<close>

text \<open>
  C3. The claim is that \<open>Details\<close> is the fragments joined with \<open>"; "\<close>, then trimmed
  (\<open>spec_Details\<close>). For \<open>E("a", 1)\<close> the code gives \<open>a1\<close>, with no separator, where the
  claim gives \<open>a; 1\<close>: the default case of the type switch appends the separator after
  the value and the \<open>string\<close> case before it.
\<close>

theorem detail_separator_missing:
  "Details (E rendered [AStr ''a'', AOther ''1'']) = ''a1''
   \<and> spec_Details rendered Error_zero [AStr ''a'', AOther ''1''] = ''a; 1''"
  by (simp add: E_def e_def Error_zero_def rendered_def spec_Details_def
        Trim_def TrimLeft_def TrimRight_def)

section \<open>The colon after the Kind of a nested record\<close>

text \<open>
  C1. The claim is that the colon after the Kind of a node is appended only if that
  node's Code is empty. The method tests the outermost record's Code: under an outer
  record with a Kind and no Code, the node with Kind \<open>inner\<close> and Code \<open>c\<close> gets the
  block \<open>inner: (c)\<close>, while the same record rendered on its own gives \<open>inner (c)\<close>.
\<close>

theorem nested_Kind_colon_reads_outermost_Code:
  "block (E rendered [AKind ''outer'', AErr (ErrorV (E rendered [AKind ''inner'', ACode ''c'']))])
         (E rendered [AKind ''inner'', ACode ''c'']) = ''inner: (c)''
   \<and> Error_Error (E rendered [AKind ''outer'',
                     AErr (ErrorV (E rendered [AKind ''inner'', ACode ''c'']))])
     = ''outer\<newline> - inner: (c)''
   \<and> Error_Error (E rendered [AKind ''inner'', ACode ''c'']) = ''inner (c)''"
  by (simp add: E_def e_def Error_zero_def Error_Error_def block_def prefix_ret_def
        Trim_def TrimLeft_def TrimRight_def)

section \<open>Derivation from a template\<close>

text \<open>
  C8, as claimed: no derivation turns a non-empty inherited field into an empty one.
  This fails for a template with module \<open>m\<close> and the argument \<open>Mod("")\<close>.
\<close>

theorem derivation_can_empty_a_field:
  "Module (Error_of (T rendered [AMod ''m''])) \<noteq> []
   \<and> Module (Template_E rendered (T rendered [AMod ''m'']) [AMod []]) = []"
  by (simp add: T_def Template_E_def e_def Error_zero_def)

text \<open>
  C8, amended. \<open>Template.T\<close> and \<open>Template.E\<close> classify from the template's own fields:
  every singular field of the result is the last attribute of its category in the
  argument list, and the inherited value when the list has none; the cause likewise.
  So a non-empty inherited singular field stays non-empty unless the last attribute of
  its category in the list is the empty text, an inherited cause is never replaced by
  an absent one, and inherited \<open>Details\<close> with a character other than \<open>;\<close> and space
  stay non-empty.
\<close>

theorem derivation_keeps_or_overrides:
  "Error_of (Template_T sprint tpl args) = Template_E sprint tpl args
   \<and> Module (Template_E sprint tpl args) = last (Module (Error_of tpl) # Mods args)
   \<and> Function (Template_E sprint tpl args) = last (Function (Error_of tpl) # Funcs args)
   \<and> Kind (Template_E sprint tpl args) = last (Kind (Error_of tpl) # Kinds args)
   \<and> Operation (Template_E sprint tpl args) = last (Operation (Error_of tpl) # Ops args)
   \<and> Object (Template_E sprint tpl args) = last (Object (Error_of tpl) # Objs args)
   \<and> Code (Template_E sprint tpl args) = last (Code (Error_of tpl) # Codes args)
   \<and> Err (Template_E sprint tpl args) = last (Err (Error_of tpl) # map Some (Causes args))
   \<and> (Module (Error_of tpl) \<noteq> [] \<and> (Mods args = [] \<or> last (Mods args) \<noteq> [])
        \<longrightarrow> Module (Template_E sprint tpl args) \<noteq> [])
   \<and> (Function (Error_of tpl) \<noteq> [] \<and> (Funcs args = [] \<or> last (Funcs args) \<noteq> [])
        \<longrightarrow> Function (Template_E sprint tpl args) \<noteq> [])
   \<and> (Kind (Error_of tpl) \<noteq> [] \<and> (Kinds args = [] \<or> last (Kinds args) \<noteq> [])
        \<longrightarrow> Kind (Template_E sprint tpl args) \<noteq> [])
   \<and> (Operation (Error_of tpl) \<noteq> [] \<and> (Ops args = [] \<or> last (Ops args) \<noteq> [])
        \<longrightarrow> Operation (Template_E sprint tpl args) \<noteq> [])
   \<and> (Object (Error_of tpl) \<noteq> [] \<and> (Objs args = [] \<or> last (Objs args) \<noteq> [])
        \<longrightarrow> Object (Template_E sprint tpl args) \<noteq> [])
   \<and> (Code (Error_of tpl) \<noteq> [] \<and> (Codes args = [] \<or> last (Codes args) \<noteq> [])
        \<longrightarrow> Code (Template_E sprint tpl args) \<noteq> [])
   \<and> (Err (Error_of tpl) \<noteq> None \<longrightarrow> Err (Template_E sprint tpl args) \<noteq> None)
   \<and> ((\<exists>c\<in>set (Details (Error_of tpl)). c \<notin> set ''; '')
        \<longrightarrow> Details (Template_E sprint tpl args) \<noteq> [])"
proof -
  have "Details (Template_E sprint tpl args) \<noteq> []"
    if "c \<in> set (Details (Error_of tpl))" and "c \<notin> set ''; ''" for c
    unfolding Template_E_def Details_e using _ that(2)
    by (rule Trim_nonempty) (simp add: that(1))
  then show ?thesis
    by (auto simp: Template_T_def Template_E_def e_def fields_e last_map)
qed

theorem derivation_keeps_or_overrides_witness:
  "Module (Error_of full_template) \<noteq> [] \<and> Mods [AOp ''o2'', AKind ''k2'', AStr ''; ''] = []
   \<and> Function (Error_of full_template) \<noteq> [] \<and> Funcs [AOp ''o2'', AKind ''k2'', AStr ''; ''] = []
   \<and> Kind (Error_of full_template) \<noteq> [] \<and> last (Kinds [AOp ''o2'', AKind ''k2'', AStr ''; '']) \<noteq> []
   \<and> Operation (Error_of full_template) \<noteq> [] \<and> last (Ops [AOp ''o2'', AKind ''k2'', AStr ''; '']) \<noteq> []
   \<and> Object (Error_of full_template) \<noteq> [] \<and> Objs [AOp ''o2'', AKind ''k2'', AStr ''; ''] = []
   \<and> Code (Error_of full_template) \<noteq> [] \<and> Codes [AOp ''o2'', AKind ''k2'', AStr ''; ''] = []
   \<and> Err (Error_of full_template) \<noteq> None
   \<and> (\<exists>c\<in>set (Details (Error_of full_template)). c \<notin> set ''; '')
   \<and> Template_E rendered full_template [AOp ''o2'', AKind ''k2'', AStr ''; '']
     = Error ''m'' ''f'' ''k2'' ''o2'' ''b'' ''c'' ''d'' (Some (Foreign ''x''))"
  using derivation_keeps_or_overrides [of rendered full_template "[AOp ''o2'', AKind ''k2'', AStr ''; '']"]
  by (simp add: full_template_def Template_E_def e_def Trim_def TrimLeft_def TrimRight_def)

section \<open>Unwrap along a chain\<close>

text \<open>
  C9. For a chain of \<open>N\<close> nested records (an innermost record classified without a
  cause, and \<open>N - 1 = length ws\<close> records each wrapping the previous one), \<open>Unwrap\<close> applied
  \<open>N - 1\<close> times to the outermost record reaches the innermost record, and the \<open>Unwrap\<close> of
  the innermost record is \<open>nil\<close>.
\<close>

theorem Unwrap_reaches_innermost:
  assumes "Err start0 = None" and "Causes as0 = []"
    and "\<forall>(start, as, bs)\<in>set ws. Causes bs = []"
  shows "Unwrap_times (length ws) (nest sprint (e sprint start0 as0) ws) = Some (e sprint start0 as0)
         \<and> Unwrap (e sprint start0 as0) = None"
  using assms by (simp add: Unwrap_times_nest Unwrap_def e_def fields_e)

theorem Unwrap_reaches_innermost_witness:
  "Err Error_zero = None \<and> Causes ([] :: string arg list) = []
   \<and> map (\<lambda>(start, as, bs). Causes bs) layers = [[], [], [], []]
   \<and> Unwrap_times 4 (nest rendered (E rendered []) layers) = Some Error_zero
   \<and> Unwrap Error_zero = None \<and> E rendered [] = Error_zero"
  using Unwrap_reaches_innermost [of Error_zero "[]" layers rendered]
  by (simp add: layers_def Error_zero_def E_def e_def rendered_def Trim_def TrimLeft_def TrimRight_def
        eval_nat_numeral)

section \<open>Derivation leaves the parent template unchanged\<close>

text \<open>
  C7. Deriving twice from the template held by variable \<open>p\<close>, into the distinct variables
  \<open>q1\<close> and \<open>q2\<close> (the parameter cells \<open>l1\<close> and \<open>l2\<close> of the two calls being fresh), leaves
  \<open>p\<close> holding the template it held; each result is what its own argument list gives
  from the parent's original fields, whatever the other argument list, and the order of
  the two derivations does not matter.
\<close>

theorem derivation_leaves_parent:
  assumes "s p = Some (Error_of tpl)"
    and "q1 \<noteq> p" and "q2 \<noteq> p" and "q1 \<noteq> q2"
    and "s l1 = None" and "s l2 = None" and "l1 \<noteq> q2" and "l2 \<noteq> q1"
  shows "derive sprint q2 p a2 l2 (derive sprint q1 p a1 l1 s) p = Some (Error_of tpl)
         \<and> derive sprint q2 p a2 l2 (derive sprint q1 p a1 l1 s) q1 = Some (Template_E sprint tpl a1)
         \<and> derive sprint q2 p a2 l2 (derive sprint q1 p a1 l1 s) q2 = Some (Template_E sprint tpl a2)
         \<and> derive sprint q2 p a2 l2 (derive sprint q1 p a1 l1 s)
           = derive sprint q1 p a1 l1 (derive sprint q2 p a2 l2 s)"
proof -
  have 1: "derive sprint q1 p a1 l1 s = s(q1 \<mapsto> e sprint (Error_of tpl) a1)"
    using assms by (simp add: derive_value)
  have 2: "derive sprint q2 p a2 l2 s = s(q2 \<mapsto> e sprint (Error_of tpl) a2)"
    using assms by (simp add: derive_value)
  have 12: "derive sprint q2 p a2 l2 (s(q1 \<mapsto> e sprint (Error_of tpl) a1))
        = (s(q1 \<mapsto> e sprint (Error_of tpl) a1))(q2 \<mapsto> e sprint (Error_of tpl) a2)"
    using assms by (intro derive_value) simp_all
  have 21: "derive sprint q1 p a1 l1 (s(q2 \<mapsto> e sprint (Error_of tpl) a2))
        = (s(q2 \<mapsto> e sprint (Error_of tpl) a2))(q1 \<mapsto> e sprint (Error_of tpl) a1)"
    using assms by (intro derive_value) simp_all
  show ?thesis
    using assms unfolding 1 2 12 21 by (auto simp: Template_E_def fun_upd_twist)
qed

theorem derivation_leaves_parent_witness:
  "example_store 0 = Some (Error_of (T rendered [AFunc ''Template.T example'']))
   \<and> (1::nat) \<noteq> 0 \<and> (2::nat) \<noteq> 0 \<and> (1::nat) \<noteq> 2
   \<and> example_store 3 = None \<and> example_store 4 = None \<and> (3::nat) \<noteq> 2 \<and> (4::nat) \<noteq> 1
   \<and> derive rendered 2 0 [AOp ''operation 1''] 4
        (derive rendered 1 0 [AObj ''etpl2''] 3 example_store) 0
      = Some (Error [] ''Template.T example'' [] [] [] [] [] None)
   \<and> derive rendered 2 0 [AOp ''operation 1''] 4
        (derive rendered 1 0 [AObj ''etpl2''] 3 example_store) 1
      = Some (Error [] ''Template.T example'' [] [] ''etpl2'' [] [] None)
   \<and> derive rendered 2 0 [AOp ''operation 1''] 4
        (derive rendered 1 0 [AObj ''etpl2''] 3 example_store) 2
      = Some (Error [] ''Template.T example'' [] ''operation 1'' [] [] [] None)"
proof -
  have p: "example_store 0 = Some (Error_of (T rendered [AFunc ''Template.T example'']))"
    and l: "example_store 3 = None" "example_store 4 = None"
    by (simp_all add: example_store_def)
  have q: "(1::nat) \<noteq> 0" "(2::nat) \<noteq> 0" "(1::nat) \<noteq> 2" "(3::nat) \<noteq> 2" "(4::nat) \<noteq> 1"
    by simp_all
  from derivation_leaves_parent [OF p q(1-3) l q(4,5),
      of rendered "[AOp ''operation 1'']" "[AObj ''etpl2'']"]
  have "derive rendered 2 0 [AOp ''operation 1''] 4
          (derive rendered 1 0 [AObj ''etpl2''] 3 example_store) 0
        = Some (Error_of (T rendered [AFunc ''Template.T example'']))"
    and "derive rendered 2 0 [AOp ''operation 1''] 4
          (derive rendered 1 0 [AObj ''etpl2''] 3 example_store) 1
        = Some (Template_E rendered (T rendered [AFunc ''Template.T example'']) [AObj ''etpl2''])"
    and "derive rendered 2 0 [AOp ''operation 1''] 4
          (derive rendered 1 0 [AObj ''etpl2''] 3 example_store) 2
        = Some (Template_E rendered (T rendered [AFunc ''Template.T example''])
                  [AOp ''operation 1''])"
    by blast+
  with p l q show ?thesis
    by (simp add: T_def Template_E_def e_def Error_zero_def Trim_def TrimLeft_def TrimRight_def)
qed

end
